theory Spec2Isabelle
  imports Main "HOL-Library.Sublist" "HOL-Library.Word"
begin

unbundle bit_operations_syntax

section \<open>Strings of the host language\<close>

text \<open>
  A string of the program is modelled by the list of its code units. Field keys, element
  names and the vocabulary tables of the program are ASCII; for text beyond ASCII a
  \<^typ>\<open>char\<close> is one UTF-8 code unit and the case mappings below leave it unchanged.
\<close>

definition toLowerChar :: "char \<Rightarrow> char" where
  "toLowerChar c =
     (let n = (of_char c :: nat) in if 65 \<le> n \<and> n \<le> 90 then char_of (n + 32) else c)"

definition toUpperChar :: "char \<Rightarrow> char" where
  "toUpperChar c =
     (let n = (of_char c :: nat) in if 97 \<le> n \<and> n \<le> 122 then char_of (n - 32) else c)"

definition toLowerCase :: "string \<Rightarrow> string" where
  "toLowerCase s = map toLowerChar s"

definition toUpperCase :: "string \<Rightarrow> string" where
  "toUpperCase s = map toUpperChar s"

text \<open>\<^verbatim>\<open>s.includes(p)\<close>, \<^verbatim>\<open>s.startsWith(p)\<close>, \<^verbatim>\<open>s.endsWith(p)\<close>.\<close>

definition str_includes :: "string \<Rightarrow> string \<Rightarrow> bool" where
  "str_includes s p = sublist p s"

definition startsWith :: "string \<Rightarrow> string \<Rightarrow> bool" where
  "startsWith s p = prefix p s"

definition endsWith :: "string \<Rightarrow> string \<Rightarrow> bool" where
  "endsWith s p = suffix p s"

text \<open>
  \<^verbatim>\<open>s.split(c)\<close> for a one-character separator: the empty string splits into one empty
  part, and a separator at either end gives an empty part there.
\<close>

fun split :: "char \<Rightarrow> string \<Rightarrow> string list" where
  "split c [] = [[]]"
| "split c (x # xs) =
     (if x = c then [] # split c xs
      else (case split c xs of p # ps \<Rightarrow> (x # p) # ps | [] \<Rightarrow> [[x]]))"

text \<open>\<^verbatim>\<open>parts.join(sep)\<close>.\<close>

fun join :: "string \<Rightarrow> string list \<Rightarrow> string" where
  "join sep [] = []"
| "join sep [p] = p"
| "join sep (p # q # ps) = p @ sep @ join sep (q # ps)"

text \<open>\<^verbatim>\<open>parts.slice(-2)\<close>: the last two elements, or all of them when there are fewer.\<close>

definition slice_last2 :: "'a list \<Rightarrow> 'a list" where
  "slice_last2 xs = drop (length xs - 2) xs"

text \<open>
  \<^verbatim>\<open>s.replace(/^(a|b|c)_/, '')\<close>: the first alternative of the list that, followed by an
  underscore, starts the string is removed together with the underscore.
\<close>

fun stripLeading :: "string list \<Rightarrow> string \<Rightarrow> string" where
  "stripLeading [] s = s"
| "stripLeading (a # as) s =
     (if prefix (a @ ''_'') s then drop (length a + 1) s else stripLeading as s)"

section \<open>Field canonicalizer (\<^verbatim>\<open>src/core/xmp-processor.ts\<close>)\<close>

text \<open>\<^verbatim>\<open>toTitleCase\<close>: split on underscores, capitalise each word, join with spaces.\<close>

definition capitalizeWord :: "string \<Rightarrow> string" where
  "capitalizeWord w = toUpperCase (take 1 w) @ toLowerCase (drop 1 w)"

definition toTitleCase :: "string \<Rightarrow> string" where
  "toTitleCase str = join '' '' (map capitalizeWord (split CHR ''_'' str))"

definition sectionPrefixes :: "string list" where
  "sectionPrefixes =
     [''scene_overview_'', ''human_elements_'', ''environment_'', ''key_objects_'',
      ''atmospheric_elements_'', ''narrative_analysis_'', ''photographic_elements_'',
      ''marketing_potential_'', ''product_identification_'', ''physical_characteristics_'',
      ''structural_elements_'', ''design_attributes_'', ''commercial_analysis_'',
      ''quality_assessment_'']"

text \<open>The loop over the section prefixes: the first prefix that matches is removed, then \<^verbatim>\<open>break\<close>.\<close>

fun stripSectionPrefix :: "string list \<Rightarrow> string \<Rightarrow> string" where
  "stripSectionPrefix [] cleanKey = cleanKey"
| "stripSectionPrefix (p # ps) cleanKey =
     (if startsWith cleanKey p then drop (length p) cleanKey else stripSectionPrefix ps cleanKey)"

definition wholeTermPatterns :: "string list" where
  "wholeTermPatterns =
     [''time_of_day'', ''number_of_people'', ''age_group'', ''construction_quality'',
      ''material_quality'', ''finish_quality'']"

definition meaningfulPatterns :: "(string \<times> string) list" where
  "meaningfulPatterns =
     [(''emotional'', ''hooks''), (''social'', ''dynamics''), (''primary'', ''color''),
      (''target'', ''market''), (''product'', ''type''), (''design'', ''style''),
      (''visual'', ''style''), (''market'', ''positioning''), (''brand'', ''alignment''),
      (''lifestyle'', ''values''), (''cultural'', ''significance''),
      (''technical'', ''qualities''), (''focal'', ''points'')]"

definition isMatchingPattern :: "string list \<Rightarrow> bool" where
  "isMatchingPattern lastTwo =
     list_ex (\<lambda>(a, b). (case lastTwo of x # y # _ \<Rightarrow> a = x \<and> b = y | _ \<Rightarrow> False))
       meaningfulPatterns"

definition beautifyFieldName :: "string \<Rightarrow> string" where
  "beautifyFieldName key =
     (let cleanKey = stripLeading [''product'', ''lifestyle'', ''orbit''] key;
          cleanKey = stripSectionPrefix sectionPrefixes cleanKey;
          parts = split CHR ''_'' cleanKey
      in if length parts \<le> 1 then toTitleCase cleanKey
         else
           let isWholeCompoundTerm =
                 list_ex (\<lambda>pattern. endsWith cleanKey pattern \<or> cleanKey = pattern)
                   wholeTermPatterns;
               processedName =
                 (if isWholeCompoundTerm then cleanKey
                  else if length parts = 2 then join ''_'' parts
                  else if length parts \<ge> 3 then
                    (if isMatchingPattern (slice_last2 parts) \<or> length parts = 3
                     then join ''_'' (slice_last2 parts)
                     else join ''_'' (slice_last2 parts))
                  else [])
           in toTitleCase processedName)"


section \<open>Semantic container classifier (\<^verbatim>\<open>getSemanticContainerType\<close>)\<close>

datatype container = Bag | Seq

definition sequentialPatterns :: "string list" where
  "sequentialPatterns =
     [''demographics'', ''age_group'', ''gender'', ''ethnicity'', ''clothing_style'',
      ''emotional_states'', ''emotions'', ''emotional_hooks'', ''mood_indicators'',
      ''food_and_beverage'', ''food_beverage'', ''furniture'', ''key_objects'',
      ''defining_props'', ''focal_points'', ''visual_elements'', ''primary_elements'',
      ''color_palette'', ''primary_colors'', ''secondary_colors'', ''color_scheme'',
      ''story_elements'', ''narrative_elements'', ''activities'', ''interactions'',
      ''technical_qualities'', ''quality_indicators'',
      ''architectural_elements'', ''natural_elements'', ''defining_props'',
      ''aspirational_elements'', ''brand_alignment_opportunities'']"

definition unorderedPatterns :: "string list" where
  "unorderedPatterns =
     [''keywords'', ''tags'', ''categories'', ''classifications'',
      ''organizations'', ''organisation'', ''person_names'', ''people_names'',
      ''equipment'', ''tools'', ''technology'', ''devices'', ''gadgets'',
      ''target_market'', ''market_segments'', ''competitive_advantages'', ''advantages'',
      ''business_categories'', ''industry_categories'',
      ''attributes'', ''characteristics'', ''features'',
      ''sensory_cues'', ''ambient_sounds'', ''weather_conditions'',
      ''personal_items'', ''accessories'', ''miscellaneous'']"

text \<open>
  \<^verbatim>\<open>v.match(/a|b|c/i)\<close> is truthy when some alternative occurs in \<^verbatim>\<open>v\<close>, letter case
  ignored; the alternatives of the program are lower-case.
\<close>

definition matchesAnyCI :: "string list \<Rightarrow> string \<Rightarrow> bool" where
  "matchesAnyCI alts v = list_ex (\<lambda>a. str_includes (toLowerCase v) a) alts"

text \<open>
  The two \<^verbatim>\<open>for\<close> loops return at the first pattern found in the field name or in the
  key; \<^verbatim>\<open>firstValue\<close> of the source is computed and never used.
\<close>

definition getSemanticContainerType :: "string \<Rightarrow> string \<Rightarrow> string list \<Rightarrow> container" where
  "getSemanticContainerType fieldName originalKey values =
     (let normalizedField = toLowerCase fieldName;
          normalizedKey = toLowerCase originalKey
      in if list_ex (\<lambda>pattern. str_includes normalizedField pattern \<or>
                                str_includes normalizedKey pattern) unorderedPatterns
         then Bag
         else if list_ex (\<lambda>pattern. str_includes normalizedField pattern \<or>
                                str_includes normalizedKey pattern) sequentialPatterns
         then Seq
         else if length values > 0 \<and>
                 (let hasAgeProgression =
                        list_ex (matchesAnyCI [''young'', ''middle'', ''old'', ''adult'',
                                               ''child'', ''teen'']) values;
                      hasIntensityProgression =
                        list_ex (matchesAnyCI [''high'', ''low'', ''medium'', ''intense'',
                                               ''mild'', ''strong'', ''weak'']) values;
                      hasTemporalProgression =
                        list_ex (matchesAnyCI [''first'', ''second'', ''primary'',
                                               ''secondary'', ''main'', ''background'']) values
                  in hasAgeProgression \<or> hasIntensityProgression \<or> hasTemporalProgression)
         then Seq
         else if str_includes normalizedField ''human'' \<or> str_includes normalizedField ''people'' \<or>
                 str_includes normalizedField ''emotional'' \<or> str_includes normalizedField ''visual'' \<or>
                 str_includes normalizedField ''narrative'' \<or> str_includes normalizedField ''story''
         then Seq
         else Bag)"

text \<open>
  The field name that \<^verbatim>\<open>generateCustomORBITBlock\<close> passes to the classifier:
  \<^verbatim>\<open>beautifyFieldName(key).replace(/\s+/g, '_')\<close>. Each maximal run of white space
  becomes one underscore.
\<close>

definition isSpace :: "char \<Rightarrow> bool" where
  "isSpace c = (c \<in> set [CHR '' '', CHR 0x09, CHR 0x0A, CHR 0x0B, CHR 0x0C, CHR 0x0D])"

fun replaceSpaceRunsFrom :: "bool \<Rightarrow> string \<Rightarrow> string" where
  "replaceSpaceRunsFrom inRun [] = []"
| "replaceSpaceRunsFrom inRun (c # cs) =
     (if isSpace c then
        (if inRun then replaceSpaceRunsFrom True cs
         else CHR ''_'' # replaceSpaceRunsFrom True cs)
      else c # replaceSpaceRunsFrom False cs)"

definition replaceSpaceRuns :: "string \<Rightarrow> string" where
  "replaceSpaceRuns s = replaceSpaceRunsFrom False s"

definition elementName :: "string \<Rightarrow> string" where
  "elementName key = replaceSpaceRuns (beautifyFieldName key)"

section \<open>Binary embedder and extractor\<close>

type_synonym byte = "8 word"

text \<open>
  A thrown \<^verbatim>\<open>Error\<close> carries its message. A packet text is modelled by its UTF-8 code
  units, so \<^verbatim>\<open>TextEncoder.encode\<close> and \<^verbatim>\<open>TextDecoder.decode\<close> map code unit to byte and
  back; the decoder's replacement of ill-formed sequences is outside the model.
\<close>

datatype error = Error string

definition TextEncoder_encode :: "string \<Rightarrow> byte list" where
  "TextEncoder_encode s = map (\<lambda>c. of_nat (of_char c)) s"

definition TextDecoder_decode :: "byte list \<Rightarrow> string" where
  "TextDecoder_decode bs = map (\<lambda>b. char_of (unat b)) bs"

text \<open>\<^verbatim>\<open>buffer.length >= 2 && buffer[0] === 0xFF && buffer[1] === 0xD8\<close>\<close>

definition isJPEG :: "byte list \<Rightarrow> bool" where
  "isJPEG buffer = (length buffer \<ge> 2 \<and> buffer ! 0 = 0xFF \<and> buffer ! 1 = 0xD8)"

text \<open>The 29 bytes of the signature \<^verbatim>\<open>http://ns.adobe.com/xap/1.0/\0\<close>.\<close>

definition xmpSignature :: "byte list" where
  "xmpSignature =
     [0x68, 0x74, 0x74, 0x70, 0x3A, 0x2F, 0x2F, 0x6E, 0x73, 0x2E,
      0x61, 0x64, 0x6F, 0x62, 0x65, 0x2E, 0x63, 0x6F, 0x6D, 0x2F,
      0x78, 0x61, 0x70, 0x2F, 0x31, 0x2E, 0x30, 0x2F, 0x00]"

text \<open>
  \<^verbatim>\<open>target.set(source, offset)\<close> on typed arrays, for a source that fits: the bytes of
  the source overwrite the target from the offset on.
\<close>

definition u8set :: "byte list \<Rightarrow> byte list \<Rightarrow> nat \<Rightarrow> byte list" where
  "u8set target source offset =
     take offset target @ source @ drop (offset + length source) target"

text \<open>
  \<^verbatim>\<open>buffer.slice(start, end)\<close> with the host's clamping: a negative index counts from
  the end, both are clamped to the buffer, and an end before the start gives the empty array.
\<close>

definition u8slice :: "byte list \<Rightarrow> int \<Rightarrow> int \<Rightarrow> byte list" where
  "u8slice buffer start end =
     (let len = int (length buffer);
          from = (if start < 0 then max (len + start) 0 else min start len);
          to = (if end < 0 then max (len + end) 0 else min end len)
      in take (nat (to - from)) (drop (nat from) buffer))"

text \<open>
  Typed arrays are mutable objects. A heap holds the arrays by address, so that a write
  to one array is seen to leave the others alone: \<^verbatim>\<open>new Uint8Array(n)\<close> allocates a
  zero-filled array at a fresh address, and \<^verbatim>\<open>target.set(source, offset)\<close> overwrites
  the array at the target's address.
\<close>

type_synonym heap = "byte list list"

definition newUint8Array :: "heap \<Rightarrow> nat \<Rightarrow> nat \<times> heap" where
  "newUint8Array h n = (length h, h @ [replicate n 0])"

definition setAt :: "heap \<Rightarrow> nat \<Rightarrow> byte list \<Rightarrow> nat \<Rightarrow> heap" where
  "setAt h target source offset = h[target := u8set (h ! target) source offset]"

text \<open>
  \<^verbatim>\<open>embedXMPInJPEG\<close>, for the array at address \<^verbatim>\<open>buffer\<close>; it returns the address of
  the new array. The length field holds the low 16 bits of
  \<^verbatim>\<open>app1Header.length + xmpBytes.length - 2\<close>, high byte first.
\<close>

definition embedXMPInJPEG :: "heap \<Rightarrow> nat \<Rightarrow> string \<Rightarrow> nat \<times> heap" where
  "embedXMPInJPEG h buffer xmpPacket =
     (let xmpBytes = TextEncoder_encode xmpPacket;
          app1Header = [0xFF, 0xE1, 0x00, 0x00] @ xmpSignature;
          totalLength = int (length app1Header) + int (length xmpBytes) - 2;
          app1Header = app1Header[2 := of_int ((totalLength div 256) mod 256)];
          app1Header = app1Header[3 := of_int (totalLength mod 256)];
          (result, h) = newUint8Array h (length (h ! buffer) + length app1Header + length xmpBytes);
          h = setAt h result (u8slice (h ! buffer) 0 2) 0;
          h = setAt h result app1Header 2;
          h = setAt h result xmpBytes (2 + length app1Header);
          h = setAt h result (u8slice (h ! buffer) 2 (int (length (h ! buffer))))
                (2 + length app1Header + length xmpBytes)
      in (result, h))"

text \<open>
  \<^verbatim>\<open>embedXMPInImage\<close>: the \<^verbatim>\<open>throw\<close> of the non-JPEG branch is caught by the
  function's own \<^verbatim>\<open>catch\<close>, which throws again with a prefixed message.
\<close>

definition embedXMPInImage :: "heap \<Rightarrow> nat \<Rightarrow> string \<Rightarrow> (error + nat) \<times> heap" where
  "embedXMPInImage h imageBuffer xmpPacket =
     (case (if isJPEG (h ! imageBuffer)
            then (let (result, h') = embedXMPInJPEG h imageBuffer xmpPacket in (Inr result, h'))
            else (Inl (Error ''Image must be JPEG format for XMP embedding. Use ImageConverter to convert first.''), h))
      of (Inr result, h') \<Rightarrow> (Inr result, h')
       | (Inl (Error message), h') \<Rightarrow> (Inl (Error (''XMP embedding failed: '' @ message)), h'))"


text \<open>
  \<^verbatim>\<open>buffer[k]\<close> beyond the end is \<^verbatim>\<open>undefined\<close>, which equals no byte and which the bit
  operations of the length computation read as zero.
\<close>

definition byteAt :: "byte list \<Rightarrow> nat \<Rightarrow> byte option" where
  "byteAt buffer k = (if k < length buffer then Some (buffer ! k) else None)"

definition byteVal :: "byte option \<Rightarrow> int" where
  "byteVal b = (case b of None \<Rightarrow> 0 | Some x \<Rightarrow> uint x)"

text \<open>The inner loop over the signature: all 29 positions hold the signature's bytes.\<close>

definition isXMPAt :: "byte list \<Rightarrow> nat \<Rightarrow> bool" where
  "isXMPAt buffer signatureStart =
     list_all (\<lambda>j. byteAt buffer (signatureStart + j) = Some (xmpSignature ! j))
       [0 ..< length xmpSignature]"

text \<open>
  \<^verbatim>\<open>extractXMPFromJPEG\<close>: the \<^verbatim>\<open>for\<close> loop from index \<^verbatim>\<open>i\<close> on. After a segment that
  is not XMP the body adds \<^verbatim>\<open>segmentLength + 2\<close> to \<^verbatim>\<open>i\<close> and the loop header adds one.
\<close>

function scanAPP1 :: "byte list \<Rightarrow> nat \<Rightarrow> string option" where
  "scanAPP1 buffer i =
     (if int i < int (length buffer) - 30 then
        (if byteAt buffer i = Some 0xFF \<and> byteAt buffer (i + 1) = Some 0xE1 then
           (let segmentLength = byteVal (byteAt buffer (i + 2)) * 256 + byteVal (byteAt buffer (i + 3));
                signatureStart = i + 4
            in if isXMPAt buffer signatureStart then
                 (let xmpStart = int signatureStart + int (length xmpSignature);
                      xmpLength = segmentLength - int (length xmpSignature) - 2;
                      xmpBytes = u8slice buffer xmpStart (xmpStart + xmpLength)
                  in Some (TextDecoder_decode xmpBytes))
               else scanAPP1 buffer (i + nat segmentLength + 2 + 1))
         else scanAPP1 buffer (i + 1))
      else None)"
  by pat_completeness auto
termination
  by (relation "measure (\<lambda>(buffer, i). length buffer - i)") auto

declare scanAPP1.simps [simp del]

definition extractXMPFromJPEG :: "byte list \<Rightarrow> string option" where
  "extractXMPFromJPEG buffer = scanAPP1 buffer 0"


section \<open>Values of the host language\<close>

text \<open>
  The values that \<^verbatim>\<open>JSON.parse\<close> produces and \<^verbatim>\<open>JSON.stringify\<close> prints. A number is
  represented by its decimal text: the program prints numbers and tests them for zero and
  does nothing else with them. An object is the list of its entries in insertion order,
  with one entry per key. The value \<^verbatim>\<open>undefined\<close> is \<^term>\<open>None\<close> of an option.
\<close>

datatype json =
    JNull
  | JBool bool
  | JNum string
  | JStr string
  | JArr "json list"
  | JObj "(string \<times> json) list"

abbreviation DQ :: char where "DQ \<equiv> CHR 0x22"
abbreviation BSL :: char where "BSL \<equiv> CHR 0x5C"
abbreviation NL :: char where "NL \<equiv> CHR 0x0A"
abbreviation SQ :: char where "SQ \<equiv> CHR 0x27"

text \<open>\<^verbatim>\<open>obj[k] = v\<close>: an existing key keeps its place, a new key goes last.\<close>

fun obj_set :: "(string \<times> 'v) list \<Rightarrow> string \<Rightarrow> 'v \<Rightarrow> (string \<times> 'v) list" where
  "obj_set [] k v = [(k, v)]"
| "obj_set ((k', v') # kvs) k v =
     (if k' = k then (k, v) # kvs else (k', v') # obj_set kvs k v)"

text \<open>
  \<^verbatim>\<open>value.k\<close> for a fixed property name that no built-in prototype defines: the entry of
  an object, and \<^verbatim>\<open>undefined\<close> on every other value.
\<close>

fun getProp :: "json \<Rightarrow> string \<Rightarrow> json option" where
  "getProp (JObj kvs) k = map_of kvs k"
| "getProp _ k = None"

text \<open>\<^verbatim>\<open>value?.k\<close> on a value that may be \<^verbatim>\<open>undefined\<close> or \<^verbatim>\<open>null\<close>.\<close>

definition optProp :: "json option \<Rightarrow> string \<Rightarrow> json option" where
  "optProp v k = (case v of None \<Rightarrow> None | Some x \<Rightarrow> getProp x k)"

definition isDigit :: "char \<Rightarrow> bool" where
  "isDigit c = (48 \<le> (of_char c :: nat) \<and> (of_char c :: nat) \<le> 57)"

text \<open>A number is falsy when it is zero: every digit of its mantissa is \<^verbatim>\<open>0\<close>.\<close>

definition isZeroNumber :: "string \<Rightarrow> bool" where
  "isZeroNumber l =
     list_all (\<lambda>c. c = CHR ''0'')
       (filter isDigit (takeWhile (\<lambda>c. c \<noteq> CHR ''e'' \<and> c \<noteq> CHR ''E'') l))"

fun truthy :: "json \<Rightarrow> bool" where
  "truthy JNull = False"
| "truthy (JBool b) = b"
| "truthy (JNum l) = (\<not> isZeroNumber l)"
| "truthy (JStr s) = (s \<noteq> [])"
| "truthy (JArr xs) = True"
| "truthy (JObj kvs) = True"

definition truthyOpt :: "json option \<Rightarrow> bool" where
  "truthyOpt v = (case v of None \<Rightarrow> False | Some x \<Rightarrow> truthy x)"

text \<open>\<^verbatim>\<open>a || b\<close>\<close>

definition orElse :: "json option \<Rightarrow> json option \<Rightarrow> json option" where
  "orElse a b = (if truthyOpt a then a else b)"

text \<open>\<^verbatim>\<open>v && typeof v === 'object'\<close>: objects and arrays; \<^verbatim>\<open>null\<close> is falsy.\<close>

fun isObjectValue :: "json option \<Rightarrow> bool" where
  "isObjectValue (Some (JObj kvs)) = True"
| "isObjectValue (Some (JArr xs)) = True"
| "isObjectValue _ = False"

text \<open>Decimal text of a natural number, for the index keys of arrays and strings.\<close>

definition digitChar :: "nat \<Rightarrow> char" where
  "digitChar d = char_of (48 + d)"

fun showNatFuel :: "nat \<Rightarrow> nat \<Rightarrow> string" where
  "showNatFuel 0 n = [digitChar (n mod 10)]"
| "showNatFuel (Suc f) n =
     (if n < 10 then [digitChar n] else showNatFuel f (n div 10) @ [digitChar (n mod 10)])"

definition showNat :: "nat \<Rightarrow> string" where
  "showNat n = showNatFuel n n"

text \<open>
  The own enumerable entries of a value, as \<^verbatim>\<open>Object.keys\<close>, \<^verbatim>\<open>Object.entries\<close> and
  \<^verbatim>\<open>Object.assign\<close> see them: the entries of an object, the indexed elements of an array,
  the indexed characters of a string, nothing for the other values.
\<close>

fun ownEntries :: "json \<Rightarrow> (string \<times> json) list" where
  "ownEntries (JObj kvs) = kvs"
| "ownEntries (JArr xs) = zip (map showNat [0 ..< length xs]) xs"
| "ownEntries (JStr s) = zip (map showNat [0 ..< length s]) (map (\<lambda>c. JStr [c]) s)"
| "ownEntries _ = []"

definition Object_keys :: "json \<Rightarrow> string list" where
  "Object_keys v = map fst (ownEntries v)"


subsection \<open>\<^verbatim>\<open>JSON.stringify(value, null, 2)\<close>\<close>

definition hexDigit :: "nat \<Rightarrow> char" where
  "hexDigit d = (if d < 10 then char_of (48 + d) else char_of (87 + d))"

definition isControlChar :: "char \<Rightarrow> bool" where
  "isControlChar c = ((of_char c :: nat) < 32)"

definition escapeJSONChar :: "char \<Rightarrow> string" where
  "escapeJSONChar c =
     (if c = DQ then [BSL, DQ]
      else if c = BSL then [BSL, BSL]
      else if c = CHR 0x08 then [BSL, CHR ''b'']
      else if c = CHR 0x0C then [BSL, CHR ''f'']
      else if c = CHR 0x0A then [BSL, CHR ''n'']
      else if c = CHR 0x0D then [BSL, CHR ''r'']
      else if c = CHR 0x09 then [BSL, CHR ''t'']
      else if isControlChar c
      then [BSL, CHR ''u'', CHR ''0'', CHR ''0'', hexDigit ((of_char c :: nat) div 16),
            hexDigit ((of_char c :: nat) mod 16)]
      else [c])"

definition quoteJSON :: "string \<Rightarrow> string" where
  "quoteJSON s = [DQ] @ concat (map escapeJSONChar s) @ [DQ]"

definition indentOf :: "nat \<Rightarrow> string" where
  "indentOf level = replicate (2 * level) CHR '' ''"

fun stringifyAt :: "nat \<Rightarrow> json \<Rightarrow> string" where
  "stringifyAt level JNull = ''null''"
| "stringifyAt level (JBool b) = (if b then ''true'' else ''false'')"
| "stringifyAt level (JNum l) = l"
| "stringifyAt level (JStr s) = quoteJSON s"
| "stringifyAt level (JArr xs) =
     (if xs = [] then ''[]''
      else ''['' @ [NL] @
           join ('','' @ [NL]) (map (\<lambda>x. indentOf (level + 1) @ stringifyAt (level + 1) x) xs) @
           [NL] @ indentOf level @ '']'')"
| "stringifyAt level (JObj kvs) =
     (if kvs = [] then ''{}''
      else ''{'' @ [NL] @
           join ('','' @ [NL])
             (map (\<lambda>kv. indentOf (level + 1) @ quoteJSON (fst kv) @ '': '' @
                          stringifyAt (level + 1) (snd kv)) kvs) @
           [NL] @ indentOf level @ ''}'')"

definition JSON_stringify :: "json \<Rightarrow> string" where
  "JSON_stringify v = stringifyAt 0 v"

subsection \<open>\<^verbatim>\<open>JSON.parse\<close>\<close>

text \<open>
  The parser reads the text once, character by character, into tokens, and the tokens
  once into a value, with the containers under construction on a stack. A scalar that is
  not a string is read as the longest run of letters, digits, signs and dots and then
  checked against the grammar. \<^term>\<open>None\<close> is the \<^verbatim>\<open>SyntaxError\<close>.
\<close>

datatype jtoken = TLBrace | TRBrace | TLBrack | TRBrack | TColon | TComma | TValue json

datatype lexmode =
    LStart
  | LWord string
  | LStr string
  | LEsc string
  | LUni string nat nat

definition isJSONSpace :: "char \<Rightarrow> bool" where
  "isJSONSpace c = (c = CHR '' '' \<or> c = CHR 0x09 \<or> c = CHR 0x0A \<or> c = CHR 0x0D)"

definition isWordChar :: "char \<Rightarrow> bool" where
  "isWordChar c =
     (let n = (of_char c :: nat)
      in (48 \<le> n \<and> n \<le> 57) \<or> (65 \<le> n \<and> n \<le> 90) \<or> (97 \<le> n \<and> n \<le> 122) \<or>
         c = CHR ''-'' \<or> c = CHR ''+'' \<or> c = CHR ''.'')"

definition numExp :: "string \<Rightarrow> bool" where
  "numExp s =
     (case s of
        [] \<Rightarrow> True
      | e # r \<Rightarrow>
          (e = CHR ''e'' \<or> e = CHR ''E'') \<and>
          (let ds = (case r of [] \<Rightarrow> []
                     | sg # r2 \<Rightarrow> if sg = CHR ''+'' \<or> sg = CHR ''-'' then r2 else r)
           in ds \<noteq> [] \<and> list_all isDigit ds))"

definition numFrac :: "string \<Rightarrow> bool" where
  "numFrac s =
     (case s of
        [] \<Rightarrow> True
      | c # r \<Rightarrow>
          if c = CHR ''.'' then takeWhile isDigit r \<noteq> [] \<and> numExp (dropWhile isDigit r)
          else numExp s)"

definition numInt :: "string \<Rightarrow> bool" where
  "numInt s =
     (case s of
        [] \<Rightarrow> False
      | c # r \<Rightarrow>
          if c = CHR ''0'' then numFrac r
          else isDigit c \<and> numFrac (dropWhile isDigit r))"

definition isNumber :: "string \<Rightarrow> bool" where
  "isNumber s = (case s of [] \<Rightarrow> False | c # r \<Rightarrow> if c = CHR ''-'' then numInt r else numInt s)"

definition wordToken :: "string \<Rightarrow> jtoken option" where
  "wordToken w =
     (if w = ''true'' then Some (TValue (JBool True))
      else if w = ''false'' then Some (TValue (JBool False))
      else if w = ''null'' then Some (TValue JNull)
      else if isNumber w then Some (TValue (JNum w))
      else None)"

definition startStep :: "char \<Rightarrow> (jtoken list \<times> lexmode) option" where
  "startStep c =
     (if isJSONSpace c then Some ([], LStart)
      else if c = CHR ''{'' then Some ([TLBrace], LStart)
      else if c = CHR ''}'' then Some ([TRBrace], LStart)
      else if c = CHR ''['' then Some ([TLBrack], LStart)
      else if c = CHR '']'' then Some ([TRBrack], LStart)
      else if c = CHR '':'' then Some ([TColon], LStart)
      else if c = CHR '','' then Some ([TComma], LStart)
      else if c = DQ then Some ([], LStr [])
      else if isWordChar c then Some ([], LWord [c])
      else None)"

definition hexValue :: "char \<Rightarrow> nat option" where
  "hexValue c =
     (let n = (of_char c :: nat)
      in if 48 \<le> n \<and> n \<le> 57 then Some (n - 48)
         else if 97 \<le> n \<and> n \<le> 102 then Some (n - 87)
         else if 65 \<le> n \<and> n \<le> 70 then Some (n - 55)
         else None)"

text \<open>The code units that stand for the code point of a \<^verbatim>\<open>\uXXXX\<close> escape.\<close>

definition utf8 :: "nat \<Rightarrow> string" where
  "utf8 v =
     (if v < 128 then [char_of v]
      else if v < 2048 then [char_of (192 + v div 64), char_of (128 + v mod 64)]
      else [char_of (224 + v div 4096), char_of (128 + (v div 64) mod 64),
            char_of (128 + v mod 64)])"

definition escapeTarget :: "char \<Rightarrow> char option" where
  "escapeTarget c =
     (if c = DQ then Some DQ
      else if c = BSL then Some BSL
      else if c = CHR ''/'' then Some CHR ''/''
      else if c = CHR ''b'' then Some (CHR 0x08)
      else if c = CHR ''f'' then Some (CHR 0x0C)
      else if c = CHR ''n'' then Some (CHR 0x0A)
      else if c = CHR ''r'' then Some (CHR 0x0D)
      else if c = CHR ''t'' then Some (CHR 0x09)
      else None)"

fun lexer :: "lexmode \<Rightarrow> string \<Rightarrow> jtoken list option" where
  "lexer LStart [] = Some []"
| "lexer (LWord acc) [] = map_option (\<lambda>t. [t]) (wordToken (rev acc))"
| "lexer (LStr acc) [] = None"
| "lexer (LEsc acc) [] = None"
| "lexer (LUni acc k v) [] = None"
| "lexer LStart (c # cs) =
     (case startStep c of
        None \<Rightarrow> None
      | Some (ts, m) \<Rightarrow> map_option (\<lambda>r. ts @ r) (lexer m cs))"
| "lexer (LWord acc) (c # cs) =
     (if isWordChar c then lexer (LWord (c # acc)) cs
      else (case wordToken (rev acc) of
              None \<Rightarrow> None
            | Some t \<Rightarrow>
                (case startStep c of
                   None \<Rightarrow> None
                 | Some (ts, m) \<Rightarrow> map_option (\<lambda>r. t # ts @ r) (lexer m cs))))"
| "lexer (LStr acc) (c # cs) =
     (if c = DQ then map_option (\<lambda>r. TValue (JStr (rev acc)) # r) (lexer LStart cs)
      else if c = BSL then lexer (LEsc acc) cs
      else if isControlChar c then None
      else lexer (LStr (c # acc)) cs)"
| "lexer (LEsc acc) (c # cs) =
     (if c = CHR ''u'' then lexer (LUni acc 0 0) cs
      else (case escapeTarget c of
              None \<Rightarrow> None
            | Some x \<Rightarrow> lexer (LStr (x # acc)) cs))"
| "lexer (LUni acc k v) (c # cs) =
     (case hexValue c of
        None \<Rightarrow> None
      | Some d \<Rightarrow>
          if k = 3 then lexer (LStr (rev (utf8 (v * 16 + d)) @ acc)) cs
          else lexer (LUni acc (k + 1) (v * 16 + d)) cs)"

datatype frame = FArr "json list" | FObj "(string \<times> json) list" "string option"

datatype pmode = PValue | PValueOrEnd | PKeyOrEnd | PKey | PColon | PAfter | PDone json

fun pushValue :: "json \<Rightarrow> frame list \<Rightarrow> (frame list \<times> pmode) option" where
  "pushValue v [] = Some ([], PDone v)"
| "pushValue v (FArr xs # st) = Some (FArr (v # xs) # st, PAfter)"
| "pushValue v (FObj kvs (Some k) # st) = Some (FObj (obj_set kvs k v) None # st, PAfter)"
| "pushValue v (FObj kvs None # st) = None"

fun closeArray :: "frame list \<Rightarrow> (frame list \<times> pmode) option" where
  "closeArray (FArr xs # st) = pushValue (JArr (rev xs)) st"
| "closeArray _ = None"

fun closeObject :: "frame list \<Rightarrow> (frame list \<times> pmode) option" where
  "closeObject (FObj kvs None # st) = pushValue (JObj kvs) st"
| "closeObject _ = None"

fun openKey :: "string \<Rightarrow> frame list \<Rightarrow> (frame list \<times> pmode) option" where
  "openKey k (FObj kvs None # st) = Some (FObj kvs (Some k) # st, PColon)"
| "openKey k _ = None"

fun afterComma :: "frame list \<Rightarrow> (frame list \<times> pmode) option" where
  "afterComma (FArr xs # st) = Some (FArr xs # st, PValue)"
| "afterComma (FObj kvs None # st) = Some (FObj kvs None # st, PKey)"
| "afterComma _ = None"

fun startValue :: "jtoken \<Rightarrow> frame list \<Rightarrow> (frame list \<times> pmode) option" where
  "startValue (TValue v) st = pushValue v st"
| "startValue TLBrack st = Some (FArr [] # st, PValueOrEnd)"
| "startValue TLBrace st = Some (FObj [] None # st, PKeyOrEnd)"
| "startValue _ st = None"

fun parseStep :: "pmode \<Rightarrow> frame list \<Rightarrow> jtoken \<Rightarrow> (frame list \<times> pmode) option" where
  "parseStep PValue st t = startValue t st"
| "parseStep PValueOrEnd st t = (if t = TRBrack then closeArray st else startValue t st)"
| "parseStep PKeyOrEnd st t =
     (case t of TValue (JStr k) \<Rightarrow> openKey k st | TRBrace \<Rightarrow> closeObject st | _ \<Rightarrow> None)"
| "parseStep PKey st t = (case t of TValue (JStr k) \<Rightarrow> openKey k st | _ \<Rightarrow> None)"
| "parseStep PColon st t = (if t = TColon then Some (st, PValue) else None)"
| "parseStep PAfter st t =
     (case t of TComma \<Rightarrow> afterComma st | TRBrack \<Rightarrow> closeArray st
      | TRBrace \<Rightarrow> closeObject st | _ \<Rightarrow> None)"
| "parseStep (PDone v) st t = None"

fun parseTokens :: "pmode \<Rightarrow> frame list \<Rightarrow> jtoken list \<Rightarrow> json option" where
  "parseTokens m st [] = (case m of PDone v \<Rightarrow> Some v | _ \<Rightarrow> None)"
| "parseTokens m st (t # ts) =
     (case parseStep m st t of
        None \<Rightarrow> None
      | Some (st', m') \<Rightarrow> parseTokens m' st' ts)"

definition JSON_parse :: "string \<Rightarrow> json option" where
  "JSON_parse text =
     (case lexer LStart text of
        None \<Rightarrow> None
      | Some ts \<Rightarrow> parseTokens PValue [] ts)"

section \<open>Packet parser\<close>

subsection \<open>Text replacement and scanning\<close>

text \<open>
  \<^verbatim>\<open>s.replace(/literal/g, rep)\<close> for a literal that is not empty: the text is read from
  left to right, each occurrence of the literal found is replaced, and the search goes on
  after it. The counter is the number of characters of a match still to be passed over.
\<close>

fun replaceAllFrom :: "nat \<Rightarrow> string \<Rightarrow> string \<Rightarrow> string \<Rightarrow> string" where
  "replaceAllFrom skip pat rep [] = []"
| "replaceAllFrom skip pat rep (c # cs) =
     (if skip > 0 then replaceAllFrom (skip - 1) pat rep cs
      else if prefix pat (c # cs) then rep @ replaceAllFrom (length pat - 1) pat rep cs
      else c # replaceAllFrom 0 pat rep cs)"

definition replaceAll :: "string \<Rightarrow> string \<Rightarrow> string \<Rightarrow> string" where
  "replaceAll pat rep s = replaceAllFrom 0 pat rep s"

text \<open>\<^verbatim>\<open>escapeXML\<close> and \<^verbatim>\<open>unescapeXML\<close>: five replacements each, in the order of the source.\<close>

definition escapeXML :: "string \<Rightarrow> string" where
  "escapeXML text =
     replaceAll [SQ] ''&apos;''
       (replaceAll [DQ] ''&quot;''
         (replaceAll ''>'' ''&gt;''
           (replaceAll ''<'' ''&lt;''
             (replaceAll ''&'' ''&amp;'' text))))"


text \<open>
  \<^verbatim>\<open>s.replace(/\.\s+"/g, ', "')\<close>: a period, the white space after it (at least one
  character, as far as it goes) and a double quote become comma, space, double quote.
\<close>

fun repairFrom :: "nat \<Rightarrow> string \<Rightarrow> string" where
  "repairFrom skip [] = []"
| "repairFrom skip (c # cs) =
     (if skip > 0 then repairFrom (skip - 1) cs
      else if c = CHR ''.'' \<and> takeWhile isSpace cs \<noteq> [] \<and>
              prefix [DQ] (dropWhile isSpace cs)
      then '', '' @ [DQ] @ repairFrom (length (takeWhile isSpace cs) + 1) cs
      else c # repairFrom 0 cs)"

definition repairPeriods :: "string \<Rightarrow> string" where
  "repairPeriods s = repairFrom 0 s"

text \<open>
  \<^verbatim>\<open>s.replace(/\.\s*\n\s*"/g, ',\n  "')\<close>: as before, for white space that contains a line
  feed; the replacement is a comma, a line feed, two spaces and the double quote.
\<close>

fun repairLinesFrom :: "nat \<Rightarrow> string \<Rightarrow> string" where
  "repairLinesFrom skip [] = []"
| "repairLinesFrom skip (c # cs) =
     (if skip > 0 then repairLinesFrom (skip - 1) cs
      else if c = CHR ''.'' \<and> NL \<in> set (takeWhile isSpace cs) \<and>
              prefix [DQ] (dropWhile isSpace cs)
      then '','' @ [NL] @ ''  '' @ [DQ] @ repairLinesFrom (length (takeWhile isSpace cs) + 1) cs
      else c # repairLinesFrom 0 cs)"

definition repairLinePeriods :: "string \<Rightarrow> string" where
  "repairLinePeriods s = repairLinesFrom 0 s"





subsection \<open>\<^verbatim>\<open>parseXMPContent\<close>\<close>






subsection \<open>\<^verbatim>\<open>extractXMPFromImage\<close>\<close>





section \<open>Category organizer and schema detection of the report tool\<close>

















text \<open>
  \<^verbatim>\<open>extractRawJSONFromMetadata\<close>: the first of the four sources that is a non-empty string
  and decodes is returned decoded; \<^verbatim>\<open>null\<close> when there is none.
\<close>

definition cleanAndParse :: "string \<Rightarrow> json option" where
  "cleanAndParse rawJsonString =
     (let cleanedJsonString =
            (if str_includes rawJsonString (''.'' @ [NL] @ ''  '' @ [DQ]) \<or>
                str_includes rawJsonString (''. '' @ [DQ])
             then repairPeriods (repairLinePeriods rawJsonString)
             else rawJsonString)
      in JSON_parse cleanedJsonString)"

fun firstParsed :: "json option list \<Rightarrow> json" where
  "firstParsed [] = JNull"
| "firstParsed (Some (JStr rawJsonString) # sources) =
     (if rawJsonString \<noteq> [] then
        (case cleanAndParse rawJsonString of
           Some parsed \<Rightarrow> parsed
         | None \<Rightarrow> firstParsed sources)
      else firstParsed sources)"
| "firstParsed (_ # sources) = firstParsed sources"

definition extractRawJSONFromMetadata :: "json \<Rightarrow> json" where
  "extractRawJSONFromMetadata metadata =
     firstParsed
       [getProp metadata ''Raw_JSON'',
        optProp (getProp metadata ''lifestyle'') ''Raw_JSON'',
        optProp (getProp metadata ''product'') ''Raw_JSON'',
        optProp (getProp metadata ''orbit'') ''Raw_JSON'']"

text \<open>
  \<^verbatim>\<open>rawJson && rawJson.processing && rawJson.processing.schema_type\<close>: the schema tag of
  the ledger when all three are truthy.
\<close>

definition ledgerSchemaTag :: "json \<Rightarrow> json option" where
  "ledgerSchemaTag metadata =
     (let rawJson = extractRawJSONFromMetadata metadata
      in if truthy rawJson \<and> truthyOpt (getProp rawJson ''processing'') \<and>
            truthyOpt (optProp (getProp rawJson ''processing'') ''schema_type'')
         then optProp (getProp rawJson ''processing'') ''schema_type''
         else None)"

definition lifestylePatterns :: "string list" where
  "lifestylePatterns =
     [''lifestyle_'', ''emotional_hooks'', ''target_demographic'', ''social_dynamics'',
      ''marketing_potential'', ''aspirational_elements'', ''brand_alignment'',
      ''cultural_significance'', ''lifestyle_values'', ''socioeconomic_indicators'']"

definition productPatterns :: "string list" where
  "productPatterns =
     [''product_'', ''commercial_analysis'', ''target_market'', ''price_point'',
      ''design_style'', ''material_quality'', ''construction_quality'',
      ''market_positioning'', ''product_type'', ''physical_characteristics'']"

definition orbitPatterns :: "string list" where
  "orbitPatterns =
     [''orbit_'', ''scene_complexity'', ''energy_level'', ''aesthetic_style'',
      ''visual_mood'', ''commercial_viability'', ''photographic_elements'']"

text \<open>\<^verbatim>\<open>patterns.filter(pattern => keyString.includes(pattern)).length\<close>\<close>

definition patternMatches :: "string list \<Rightarrow> string \<Rightarrow> nat" where
  "patternMatches patterns keyString = length (filter (\<lambda>pattern. str_includes keyString pattern) patterns)"

text \<open>\<^verbatim>\<open>Object.keys(metadata).join(' ').toLowerCase()\<close>\<close>

definition keyStringOf :: "json \<Rightarrow> string" where
  "keyStringOf metadata = toLowerCase (join '' '' (Object_keys metadata))"

text \<open>
  \<^verbatim>\<open>detectSchemaType\<close> of the report tool. The value returned from the ledger's tag is
  whatever the ledger holds there.
\<close>

definition detectSchemaType_report :: "json \<Rightarrow> json" where
  "detectSchemaType_report metadata =
     (if isObjectValue (getProp metadata ''lifestyle'') then JStr ''lifestyle''
      else if isObjectValue (getProp metadata ''product'') then JStr ''product''
      else if isObjectValue (getProp metadata ''orbit'') then JStr ''orbit''
      else
        (case ledgerSchemaTag metadata of
           Some schemaFromProcessing \<Rightarrow> schemaFromProcessing
         | None \<Rightarrow>
             (let keyString = keyStringOf metadata;
                  lifestyleMatches = patternMatches lifestylePatterns keyString;
                  productMatches = patternMatches productPatterns keyString;
                  orbitMatches = patternMatches orbitPatterns keyString
              in if lifestyleMatches > productMatches \<and> lifestyleMatches > orbitMatches
                 then JStr ''lifestyle''
                 else if productMatches > lifestyleMatches \<and> productMatches > orbitMatches
                 then JStr ''product''
                 else if orbitMatches > lifestyleMatches \<and> orbitMatches > productMatches
                 then JStr ''orbit''
                 else if str_includes keyString ''lifestyle_'' then JStr ''lifestyle''
                 else if str_includes keyString ''product_'' then JStr ''product''
                 else if str_includes keyString ''orbit_'' then JStr ''orbit''
                 else JStr ''lifestyle'')))"

section \<open>Invariants of the organizer's loops\<close>




section \<open>Packet serializer\<close>

datatype SchemaType = Lifestyle | Product | Orbit

definition schemaName :: "SchemaType \<Rightarrow> string" where
  "schemaName t = (case t of Lifestyle \<Rightarrow> ''lifestyle'' | Product \<Rightarrow> ''product'' | Orbit \<Rightarrow> ''orbit'')"

definition NAMESPACES :: "(string \<times> string) list" where
  "NAMESPACES =
     [(''dc'', ''http://purl.org/dc/elements/1.1/''),
      (''iptc'', ''http://iptc.org/std/Iptc4xmpExt/2008-02-29/''),
      (''xmp'', ''http://ns.adobe.com/xap/1.0/''),
      (''photoshop'', ''http://ns.adobe.com/photoshop/1.0/''),
      (''xmpRights'', ''http://ns.adobe.com/xap/1.0/rights/''),
      (''exif'', ''http://ns.adobe.com/exif/1.0/''),
      (''lifestyle'', ''http://orbit.com/lifestyle/1.0/''),
      (''product'', ''http://orbit.com/product/1.0/''),
      (''orbit'', ''http://orbit.com/orbit/1.0/''),
      (''processing'', ''http://orbit.com/processing/1.0/'')]"

definition namespaceOf :: "string \<Rightarrow> string" where
  "namespaceOf k = (case map_of NAMESPACES k of Some uri \<Rightarrow> uri | None \<Rightarrow> ''undefined'')"

subsection \<open>Conversions of the host language\<close>

text \<open>
  \<^verbatim>\<open>String(v)\<close> and the conversion inside a template literal. The elements of an array
  are joined by commas, with \<^verbatim>\<open>null\<close> as the empty string.
\<close>

fun jsToString :: "json \<Rightarrow> string" where
  "jsToString JNull = ''null''"
| "jsToString (JBool b) = (if b then ''true'' else ''false'')"
| "jsToString (JNum l) = l"
| "jsToString (JStr s) = s"
| "jsToString (JArr xs) = join '','' (map (\<lambda>x. if x = JNull then [] else jsToString x) xs)"
| "jsToString (JObj kvs) = ''[object Object]''"

definition optToString :: "json option \<Rightarrow> string" where
  "optToString v = (case v of None \<Rightarrow> ''undefined'' | Some x \<Rightarrow> jsToString x)"

text \<open>\<^verbatim>\<open>array.join(sep)\<close>\<close>

definition arrayJoin :: "string \<Rightarrow> json list \<Rightarrow> string" where
  "arrayJoin sep xs = join sep (map (\<lambda>x. if x = JNull then [] else jsToString x) xs)"

text \<open>\<^verbatim>\<open>s.trim()\<close>\<close>

definition trim :: "string \<Rightarrow> string" where
  "trim s = rev (dropWhile isSpace (rev (dropWhile isSpace s)))"

text \<open>
  \<^verbatim>\<open>v.toLowerCase()\<close> on a truthy value: the method exists on strings only, and calling
  it on anything else throws a \<^verbatim>\<open>TypeError\<close>, an \<^verbatim>\<open>Error\<close> with the message given here.
\<close>

definition lowerOf :: "string \<Rightarrow> json option \<Rightarrow> error + string" where
  "lowerOf what v =
     (case v of
        Some (JStr s) \<Rightarrow> Inr (toLowerCase s)
      | _ \<Rightarrow> Inl (Error (what @ ''.toLowerCase is not a function'')))"

definition bindE :: "error + 'a \<Rightarrow> ('a \<Rightarrow> error + 'b) \<Rightarrow> error + 'b" where
  "bindE m f = (case m of Inl e \<Rightarrow> Inl e | Inr x \<Rightarrow> f x)"

text \<open>\<^verbatim>\<open>[...new Set(xs)]\<close>: the first occurrence of each element, in order.\<close>

fun uniqueFrom :: "string list \<Rightarrow> string list \<Rightarrow> string list" where
  "uniqueFrom seen [] = []"
| "uniqueFrom seen (x # xs) =
     (if x \<in> set seen then uniqueFrom seen xs else x # uniqueFrom (x # seen) xs)"

subsection \<open>Flattening\<close>

text \<open>
  \<^verbatim>\<open>flattenMetadata\<close>: the loop over the entries of an object. \<^verbatim>\<open>null\<close> is skipped, a
  nested object is flattened under the extended key and merged in, an array is joined by
  comma and space, and any other value is converted to a string.
\<close>

fun flattenFields :: "string \<Rightarrow> json \<Rightarrow> (string \<times> string) list" where
  "flattenFields pfx (JObj kvs) =
     foldl (\<lambda>flattened kv.
              (let fullKey = (if pfx \<noteq> [] then pfx @ ''_'' @ fst kv else fst kv)
               in case snd kv of
                    JNull \<Rightarrow> flattened
                  | JObj sub \<Rightarrow>
                      foldl (\<lambda>t e. obj_set t (fst e) (snd e)) flattened
                        (flattenFields fullKey (snd kv))
                  | JArr xs \<Rightarrow> obj_set flattened fullKey (arrayJoin '', '' xs)
                  | v \<Rightarrow> obj_set flattened fullKey (jsToString v)))
       [] kvs"
| "flattenFields pfx v = []"

definition flattenMetadata :: "json \<Rightarrow> string \<Rightarrow> (string \<times> string) list" where
  "flattenMetadata metadata pfx = flattenFields pfx (JObj (ownEntries metadata))"

text \<open>\<^verbatim>\<open>parseArrayValue\<close>\<close>

definition parseArrayValue :: "json \<Rightarrow> string list" where
  "parseArrayValue v =
     (case v of
        JArr xs \<Rightarrow> map jsToString xs
      | JStr s \<Rightarrow>
          if CHR '','' \<in> set s
          then filter (\<lambda>item. length item > 0) (map trim (split CHR '','' s))
          else [s]
      | _ \<Rightarrow> [jsToString v])"

subsection \<open>RDF containers\<close>

definition generateRDFSeq :: "string list \<Rightarrow> string \<Rightarrow> string" where
  "generateRDFSeq items indent =
     (if items = [] then []
      else [NL] @ indent @ ''  <rdf:Seq>'' @ [NL] @
           join [NL] (map (\<lambda>item. indent @ ''    <rdf:li>'' @ escapeXML item @ ''</rdf:li>'') items) @
           [NL] @ indent @ ''  </rdf:Seq>'' @ [NL] @ indent)"

definition generateRDFBag :: "string list \<Rightarrow> string \<Rightarrow> string" where
  "generateRDFBag items indent =
     (if items = [] then []
      else [NL] @ indent @ ''  <rdf:Bag>'' @ [NL] @
           join [NL] (map (\<lambda>item. indent @ ''    <rdf:li>'' @ escapeXML item @ ''</rdf:li>'') items) @
           [NL] @ indent @ ''  </rdf:Bag>'' @ [NL] @ indent)"

definition generateSemanticRDFContainer :: "string list \<Rightarrow> string \<Rightarrow> string \<Rightarrow> string \<Rightarrow> string" where
  "generateSemanticRDFContainer items fieldName originalKey indent =
     (if items = [] then []
      else if getSemanticContainerType fieldName originalKey items = Seq
      then generateRDFSeq items indent
      else generateRDFBag items indent)"

definition generateRDFAlt :: "string \<Rightarrow> string \<Rightarrow> string \<Rightarrow> string" where
  "generateRDFAlt val lang indent =
     [NL] @ indent @ ''  <rdf:Alt>'' @ [NL] @ indent @ ''    <rdf:li xml:lang='' @ [SQ] @ lang @ [SQ] @ ''>'' @
     escapeXML val @ ''</rdf:li>'' @ [NL] @ indent @ ''  </rdf:Alt>'' @ [NL] @ indent"

subsection \<open>Standard blocks\<close>

text \<open>\<^verbatim>\<open>metadata.section?.key || metadata.key\<close>\<close>

definition sectionField :: "json \<Rightarrow> string \<Rightarrow> string \<Rightarrow> json option" where
  "sectionField metadata section k =
     orElse (optProp (getProp metadata section) k) (getProp metadata k)"

definition generateSceneDescription :: "json \<Rightarrow> error + string" where
  "generateSceneDescription metadata =
     (let setting = sectionField metadata ''scene_overview'' ''setting'';
          timeOfDay = sectionField metadata ''scene_overview'' ''time_of_day'';
          activity = sectionField metadata ''scene_overview'' ''primary_activity'';
          numPeople = sectionField metadata ''human_elements'' ''number_of_people'';
          mood = sectionField metadata ''atmospheric_elements'' ''mood''
      in bindE (if truthyOpt setting \<and> truthyOpt activity
                then bindE (lowerOf ''activity'' activity) (\<lambda>a.
                     bindE (lowerOf ''setting'' setting) (\<lambda>s.
                     Inr [''A scene of '' @ a @ '' in '' @ s]))
                else Inr []) (\<lambda>p1.
         bindE (Inr (if truthyOpt numPeople
                     then [''featuring '' @ optToString numPeople @ '' people'']
                     else [])) (\<lambda>p2.
         bindE (if truthyOpt timeOfDay
                then bindE (lowerOf ''timeOfDay'' timeOfDay) (\<lambda>t. Inr [''during '' @ t])
                else Inr []) (\<lambda>p3.
         bindE (if truthyOpt mood
                then bindE (lowerOf ''mood'' mood) (\<lambda>m. Inr [''with a '' @ m @ '' atmosphere''])
                else Inr []) (\<lambda>p4.
         Inr (if length (p1 @ p2 @ p3 @ p4) > 0
              then join '' '' (p1 @ p2 @ p3 @ p4) @ ''.''
              else []))))))"

definition extractKeywords :: "json \<Rightarrow> error + string list" where
  "extractKeywords metadata =
     (let foodBev = sectionField metadata ''key_objects'' ''food_and_beverage'';
          furniture = sectionField metadata ''key_objects'' ''furniture'';
          activity = sectionField metadata ''scene_overview'' ''primary_activity'';
          location = sectionField metadata ''environment'' ''location_type'';
          k1 = (case foodBev of
                  Some v \<Rightarrow> if truthy v then map toLowerCase (parseArrayValue v) else []
                | None \<Rightarrow> []);
          k2 = (case furniture of
                  Some v \<Rightarrow> if truthy v then map toLowerCase (parseArrayValue v) else []
                | None \<Rightarrow> [])
      in bindE (if truthyOpt activity
                then bindE (lowerOf ''activity'' activity) (\<lambda>a. Inr [a])
                else Inr []) (\<lambda>k3.
         bindE (if truthyOpt location
                then bindE (lowerOf ''location'' location) (\<lambda>l. Inr [l])
                else Inr []) (\<lambda>k4.
         Inr (take 10 (uniqueFrom [] (k1 @ k2 @ k3 @ k4))))))"

definition mapToDublinCore :: "json \<Rightarrow> SchemaType \<Rightarrow> error + (string \<times> json) list" where
  "mapToDublinCore metadata schemaType =
     (let setting = sectionField metadata ''scene_overview'' ''setting'';
          activity = sectionField metadata ''scene_overview'' ''primary_activity'';
          dc1 = (if truthyOpt setting \<and> truthyOpt activity
                 then [(''title'', JStr (optToString setting @ '' - '' @ optToString activity))]
                 else (case setting of
                         Some v \<Rightarrow> if truthy v then [(''title'', v)] else []
                       | None \<Rightarrow> []))
      in bindE (generateSceneDescription metadata) (\<lambda>description.
         bindE (extractKeywords metadata) (\<lambda>keywords.
         Inr (dc1 @
              (if description \<noteq> [] then [(''description'', JStr description)] else []) @
              (if length keywords > 0 then [(''subject'', JArr (map JStr keywords))] else []) @
              [(''creator'', JStr ''ORBIT AI Analysis System'')]))))"

text \<open>
  \<^verbatim>\<open>locationText.includes(x)\<close> on a truthy value: a substring test on a string, a
  membership test on an array, and a \<^verbatim>\<open>TypeError\<close> on every other value.
\<close>

definition includesOf :: "json \<Rightarrow> string \<Rightarrow> error + bool" where
  "includesOf v x =
     (case v of
        JStr s \<Rightarrow> Inr (str_includes s x)
      | JArr xs \<Rightarrow> Inr (JStr x \<in> set xs)
      | _ \<Rightarrow> Inl (Error ''locationText.includes is not a function''))"

definition mapToIPTC :: "json \<Rightarrow> error + (string \<times> json) list" where
  "mapToIPTC metadata =
     (let demographics = sectionField metadata ''human_elements'' ''demographics'';
          i1 = (case demographics of
                  Some v \<Rightarrow>
                    if truthy v \<and> length (parseArrayValue v) > 0
                    then [(''PersonInImage'', JArr (map JStr (parseArrayValue v)))]
                    else []
                | None \<Rightarrow> []);
          locationText = sectionField metadata ''environment'' ''location_type''
      in case locationText of
           None \<Rightarrow> Inr i1
         | Some loc \<Rightarrow>
             if \<not> truthy loc then Inr i1
             else
               bindE (includesOf loc ''restaurant'') (\<lambda>r.
               bindE (if r then Inr True else includesOf loc ''bar'') (\<lambda>b.
               bindE (if b then Inr True else includesOf loc ''cafe'') (\<lambda>c.
               if c
               then bindE (lowerOf ''locationText'' (Some loc)) (\<lambda>l.
                      Inr (i1 @ [(''OrganisationInImageName'', JArr [JStr (''Unidentified '' @ l)])]))
               else Inr i1))))"

text \<open>
  \<^verbatim>\<open>mapToXMPCore\<close> reads the clock twice. The clock is a parameter: its \<open>i\<close>-th reading is
  the text that the \<open>i\<close>-th \<^verbatim>\<open>new Date().toISOString()\<close> of a serialization gives.
\<close>

definition mapToXMPCore :: "(nat \<Rightarrow> string) \<Rightarrow> nat \<Rightarrow> (string \<times> json) list" where
  "mapToXMPCore clock i =
     [(''CreatorTool'', JStr ''ORBIT Metadata MCP v2.1''),
      (''CreateDate'', JStr (clock i)),
      (''MetadataDate'', JStr (clock (i + 1)))]"

definition mapToPhotoshop :: "json \<Rightarrow> (string \<times> json) list" where
  "mapToPhotoshop metadata =
     (let marketingHooks = sectionField metadata ''marketing_potential'' ''emotional_hooks'';
          targetDemo = sectionField metadata ''marketing_potential'' ''target_demographic''
      in (if truthyOpt marketingHooks \<or> truthyOpt targetDemo
          then [(''Instructions'',
                 JStr (''AI-analyzed image suitable for'' @
                       (if truthyOpt targetDemo
                        then '' '' @ optToString targetDemo @ '' marketing'' else []) @
                       (if truthyOpt marketingHooks
                        then ''. Emotional themes: '' @ optToString marketingHooks else [])))]
          else []) @
         [(''Source'', JStr ''AI-generated metadata analysis''), (''ColorMode'', JStr ''3'')])"

text \<open>
  The frame that every block generator puts around its fields: the description element
  with the declaration of the block's namespace.
\<close>

definition rdfDescription :: "string \<Rightarrow> string \<Rightarrow> string \<Rightarrow> string" where
  "rdfDescription pfx uri fieldText =
     ''        <rdf:Description rdf:about='' @ [DQ, DQ, NL] @ ''          xmlns:'' @ pfx @ ''='' @ [DQ] @ uri @ [DQ] @ ''>'' @ [NL] @
     fieldText @ ''        </rdf:Description>''"

definition element :: "string \<Rightarrow> string \<Rightarrow> string \<Rightarrow> string" where
  "element pfx nm body =
     ''          <'' @ pfx @ '':'' @ nm @ ''>'' @ body @ ''</'' @ pfx @ '':'' @ nm @ ''>'' @ [NL]"

definition isArrayValue :: "json \<Rightarrow> bool" where
  "isArrayValue v = (case v of JArr xs \<Rightarrow> True | _ \<Rightarrow> False)"

definition generateDublinCoreBlock :: "(string \<times> json) list \<Rightarrow> string" where
  "generateDublinCoreBlock dcFields =
     rdfDescription ''dc'' (namespaceOf ''dc'')
       (concat (map (\<lambda>(key, val).
          if key = ''title'' \<or> key = ''description''
          then element ''dc'' key (generateRDFAlt (jsToString val) ''x-default'' ''    '')
          else if key = ''subject'' \<and> isArrayValue val
          then element ''dc'' key (generateRDFBag (parseArrayValue val) ''    '')
          else element ''dc'' key (escapeXML (jsToString val))) dcFields))"

definition generateIPTCBlock :: "(string \<times> json) list \<Rightarrow> string" where
  "generateIPTCBlock iptcFields =
     rdfDescription ''Iptc4xmpExt'' (namespaceOf ''iptc'')
       (concat (map (\<lambda>(key, val).
          if isArrayValue val
          then element ''Iptc4xmpExt'' key
                 (generateSemanticRDFContainer (parseArrayValue val) key [] ''    '')
          else element ''Iptc4xmpExt'' key (escapeXML (jsToString val))) iptcFields))"

definition generateXMPCoreBlock :: "(string \<times> json) list \<Rightarrow> string" where
  "generateXMPCoreBlock xmpFields =
     rdfDescription ''xmp'' (namespaceOf ''xmp'')
       (concat (map (\<lambda>(key, val). element ''xmp'' key (escapeXML (jsToString val))) xmpFields))"

definition generatePhotoshopBlock :: "(string \<times> json) list \<Rightarrow> string" where
  "generatePhotoshopBlock psFields =
     rdfDescription ''photoshop'' (namespaceOf ''photoshop'')
       (concat (map (\<lambda>(key, val). element ''photoshop'' key (escapeXML (jsToString val))) psFields))"

subsection \<open>The schema block and the ledger\<close>

text \<open>
  \<^verbatim>\<open>generateCompleteRawJSON\<close>: the ledger. The standard fields are mapped again from the
  original metadata; the clock is read twice for them and once for the processing time.
\<close>

definition generateCompleteRawJSON ::
  "(nat \<Rightarrow> string) \<Rightarrow> nat \<Rightarrow> (string \<times> string) list \<Rightarrow> SchemaType \<Rightarrow> json \<Rightarrow> error + json" where
  "generateCompleteRawJSON clock i flattenedMetadata schemaType originalMetadata =
     bindE (mapToDublinCore originalMetadata schemaType) (\<lambda>dcFields.
     bindE (mapToIPTC originalMetadata) (\<lambda>iptcFields.
       (let xmpFields = mapToXMPCore clock i;
            psFields = mapToPhotoshop originalMetadata;
            processingInfo =
              [(''processed_timestamp'', JStr (clock (i + 2))),
               (''processor_version'', JStr ''1.0.0''),
               (''schema_type'', JStr (schemaName schemaType)),
               (''processor_location'', JStr ''local_memory_stream'')];
            beautifiedFields =
              foldl (\<lambda>fields (key, val).
                       obj_set fields (elementName key)
                         (if length (parseArrayValue (JStr val)) > 1
                          then JArr (map JStr (parseArrayValue (JStr val)))
                          else JStr val))
                [] flattenedMetadata
        in Inr (JObj
             [(''original_metadata'', originalMetadata),
              (''flattened_fields'', JObj beautifiedFields),
              (''standard_metadata'',
                 JObj [(''dublin_core'', JObj dcFields), (''iptc'', JObj iptcFields),
                       (''xmp_core'', JObj xmpFields), (''photoshop'', JObj psFields)]),
              (''processing'', JObj processingInfo)]))))"

definition generateCustomORBITBlock ::
  "(nat \<Rightarrow> string) \<Rightarrow> nat \<Rightarrow> (string \<times> string) list \<Rightarrow> SchemaType \<Rightarrow> json \<Rightarrow> error + string" where
  "generateCustomORBITBlock clock i flattenedMetadata schemaType originalMetadata =
     (let pfx = schemaName schemaType;
          fieldText =
            concat (map (\<lambda>(key, val).
              if length (parseArrayValue (JStr val)) > 1
              then element pfx (elementName key)
                     (generateSemanticRDFContainer (parseArrayValue (JStr val))
                        (elementName key) key ''    '')
              else element pfx (elementName key) (escapeXML val)) flattenedMetadata)
      in if truthy originalMetadata
         then bindE (generateCompleteRawJSON clock i flattenedMetadata schemaType originalMetadata)
                (\<lambda>completeRawData.
                   Inr (rdfDescription pfx (namespaceOf pfx)
                          (fieldText @
                           element pfx ''Raw_JSON'' (escapeXML (JSON_stringify completeRawData)))))
         else Inr (rdfDescription pfx (namespaceOf pfx) fieldText))"

definition generateProcessingBlock :: "(string \<times> string) list \<Rightarrow> string" where
  "generateProcessingBlock processingInfo =
     rdfDescription ''processing'' (namespaceOf ''processing'')
       (concat (map (\<lambda>(key, val). element ''processing'' (elementName key) (escapeXML val))
                  processingInfo))"

text \<open>
  \<^verbatim>\<open>generateXMPContent\<close>: a block is pushed when its field map has a key; the schema
  block is always pushed. The first mapping of the standard fields reads the clock at
  \<open>i\<close> and \<open>i + 1\<close>, the ledger reads on from \<open>i + 2\<close>.
\<close>

definition generateXMPContent ::
  "(nat \<Rightarrow> string) \<Rightarrow> nat \<Rightarrow> (string \<times> string) list \<Rightarrow> SchemaType \<Rightarrow>
   (string \<times> string) list \<Rightarrow> json \<Rightarrow> error + string" where
  "generateXMPContent clock i flattenedMetadata schemaType processingInfo originalMetadata =
     bindE (mapToDublinCore originalMetadata schemaType) (\<lambda>dcFields.
     bindE (mapToIPTC originalMetadata) (\<lambda>iptcFields.
       (let xmpFields = mapToXMPCore clock i;
            psFields = mapToPhotoshop originalMetadata
        in bindE (generateCustomORBITBlock clock (i + 2) flattenedMetadata schemaType
                    originalMetadata) (\<lambda>orbitBlock.
           Inr (join [NL, NL]
                  ((if length dcFields > 0 then [generateDublinCoreBlock dcFields] else []) @
                   (if length iptcFields > 0 then [generateIPTCBlock iptcFields] else []) @
                   (if length xmpFields > 0 then [generateXMPCoreBlock xmpFields] else []) @
                   (if length psFields > 0 then [generatePhotoshopBlock psFields] else []) @
                   [orbitBlock] @
                   (if length processingInfo > 0 then [generateProcessingBlock processingInfo]
                    else [])))))))"

definition wrapXMPContent :: "string \<Rightarrow> bool \<Rightarrow> string" where
  "wrapXMPContent content prettyPrint =
     (let indent = (if prettyPrint then [NL] @ ''      '' else []);
          spacing = (if prettyPrint then [NL] @ ''    '' else [])
      in ''<?xpacket begin='' @ [DQ, CHR 0xEF, CHR 0xBB, CHR 0xBF, DQ] @ '' id='' @ [DQ] @ ''W5M0MpCehiHzreSzNTczkc9d'' @ [DQ] @ ''?>'' @ [NL] @ ''    <x:xmpmeta xmlns:x='' @ [DQ] @ ''adobe:ns:meta/'' @ [DQ] @ '' x:xmptk='' @ [DQ] @ ''ORBIT Metadata MCP v2.1'' @ [DQ] @ ''>'' @ [NL] @ ''      <rdf:RDF xmlns:rdf='' @ [DQ] @ ''http://www.w3.org/1999/02/22-rdf-syntax-ns#'' @ [DQ] @ ''>'' @
         indent @ content @ spacing @
         [NL] @ ''      </rdf:RDF>'' @ [NL] @ ''    </x:xmpmeta>'' @ [NL] @ ''    <?xpacket end='' @ [DQ] @ ''w'' @ [DQ] @ ''?>'')"

record packet_options =
  includeWrappers :: bool
  prettyPrint :: bool
  includeProcessingInfo :: bool

text \<open>
  The record \<^verbatim>\<open>XMPPacketInfo\<close>; its field \<^verbatim>\<open>xmp_content\<close> is named \<^verbatim>\<open>packet_text\<close> here,
  apart from the field of the extraction result.
\<close>

record XMPPacketInfo =
  packet_text :: string
  packet_size :: nat
  namespace_count :: nat
  field_count :: nat

text \<open>
  \<^verbatim>\<open>createXMPPacket\<close>. The metadata is flattened under the schema name as prefix. An
  exception of a mapping function is not caught here.
\<close>

definition createXMPPacket ::
  "(nat \<Rightarrow> string) \<Rightarrow> json \<Rightarrow> SchemaType \<Rightarrow> packet_options \<Rightarrow> error + XMPPacketInfo" where
  "createXMPPacket clock metadata schemaType options =
     (let timestamp = clock 0;
          processingInfo =
            (if includeProcessingInfo options
             then [(''processed_timestamp'', timestamp),
                   (''processor_version'', ''1.0.0''),
                   (''schema_type'', schemaName schemaType),
                   (''processor_location'', ''local_memory_stream'')]
             else []);
          flattenedMetadata = flattenMetadata metadata (schemaName schemaType)
      in bindE (generateXMPContent clock 1 flattenedMetadata schemaType processingInfo metadata)
           (\<lambda>xmpContent.
              (let xmpContent = (if includeWrappers options
                                 then wrapXMPContent xmpContent (prettyPrint options)
                                 else xmpContent);
                   fieldCount = length flattenedMetadata +
                                (if includeProcessingInfo options then length processingInfo else 0)
               in Inr \<lparr>packet_text = xmpContent, packet_size = length xmpContent,
                       namespace_count = 1, field_count = fieldCount\<rparr>)))"

section \<open>Properties of the field canonicalizer\<close>

lemma of_char_toUpperChar:
  "(of_char (toUpperChar c) :: nat) =
     (if 97 \<le> (of_char c :: nat) \<and> (of_char c :: nat) \<le> 122 then of_char c - 32 else of_char c)"
  by (auto simp add: toUpperChar_def Let_def)

lemma of_char_toLowerChar:
  "(of_char (toLowerChar c) :: nat) =
     (if 65 \<le> (of_char c :: nat) \<and> (of_char c :: nat) \<le> 90 then of_char c + 32 else of_char c)"
  by (auto simp add: toLowerChar_def Let_def)

lemma char_eq_code: "(c = d) = ((of_char c :: nat) = of_char d)"
  by simp




























text \<open>
  Claim C9. The key \<^verbatim>\<open>lifestyle_scene_overview_time_of_day\<close> has the display name
  \<^verbatim>\<open>Time Of Day\<close>.
\<close>

theorem beautifyFieldName_time_of_day:
  "beautifyFieldName ''lifestyle_scene_overview_time_of_day'' = ''Time Of Day''"
  by code_simp

section \<open>Code equations for the character tests\<close>

text \<open>
  The character tests are defined through character codes. Evaluation is much faster on
  the bits of a character, so each test gets an equation on the bits, proved from its
  definition.
\<close>

lemma toLowerChar_code [code]:
  "toLowerChar (Char b0 b1 b2 b3 b4 b5 b6 b7) =
     (if \<not> b7 \<and> b6 \<and> \<not> b5 \<and> (b0 \<or> b1 \<or> b2 \<or> b3 \<or> b4) \<and> \<not> (b4 \<and> b3 \<and> (b2 \<or> (b1 \<and> b0)))
      then Char b0 b1 b2 b3 b4 True b6 b7
      else Char b0 b1 b2 b3 b4 b5 b6 b7)"
  unfolding char_eq_code [of "toLowerChar (Char b0 b1 b2 b3 b4 b5 b6 b7)"]
  by (cases b0; cases b1; cases b2; cases b3; cases b4; cases b5; cases b6; cases b7;
      simp add: of_char_toLowerChar)

lemma toUpperChar_code [code]:
  "toUpperChar (Char b0 b1 b2 b3 b4 b5 b6 b7) =
     (if \<not> b7 \<and> b6 \<and> b5 \<and> (b0 \<or> b1 \<or> b2 \<or> b3 \<or> b4) \<and> \<not> (b4 \<and> b3 \<and> (b2 \<or> (b1 \<and> b0)))
      then Char b0 b1 b2 b3 b4 False b6 b7
      else Char b0 b1 b2 b3 b4 b5 b6 b7)"
  unfolding char_eq_code [of "toUpperChar (Char b0 b1 b2 b3 b4 b5 b6 b7)"]
  by (cases b0; cases b1; cases b2; cases b3; cases b4; cases b5; cases b6; cases b7;
      simp add: of_char_toUpperChar)

lemma isDigit_code [code]:
  "isDigit (Char b0 b1 b2 b3 b4 b5 b6 b7) =
     (\<not> b7 \<and> \<not> b6 \<and> b5 \<and> b4 \<and> \<not> (b3 \<and> (b2 \<or> b1)))"
  by (cases b0; cases b1; cases b2; cases b3; cases b4; cases b5; cases b6; cases b7;
      simp add: isDigit_def)

lemma isWordChar_code [code]:
  "isWordChar (Char b0 b1 b2 b3 b4 b5 b6 b7) =
     (isDigit (Char b0 b1 b2 b3 b4 b5 b6 b7) \<or>
      (\<not> b7 \<and> b6 \<and> (b0 \<or> b1 \<or> b2 \<or> b3 \<or> b4) \<and> \<not> (b4 \<and> b3 \<and> (b2 \<or> (b1 \<and> b0)))) \<or>
      Char b0 b1 b2 b3 b4 b5 b6 b7 = CHR ''-'' \<or> Char b0 b1 b2 b3 b4 b5 b6 b7 = CHR ''+'' \<or>
      Char b0 b1 b2 b3 b4 b5 b6 b7 = CHR ''.'')"
  by (cases b0; cases b1; cases b2; cases b3; cases b4; cases b5; cases b6; cases b7;
      simp add: isWordChar_def isDigit_def)

lemma isControlChar_code [code]:
  "isControlChar (Char b0 b1 b2 b3 b4 b5 b6 b7) = (\<not> b7 \<and> \<not> b6 \<and> \<not> b5)"
  by (cases b0; cases b1; cases b2; cases b3; cases b4; cases b5; cases b6; cases b7;
      simp add: isControlChar_def)

section \<open>Properties of the embedder, the extractor and the classifier\<close>








lemma scan_step_other:
  "int i < int (length buf) - 30 \<Longrightarrow> byteAt buf i = Some 0xFF \<Longrightarrow>
   byteAt buf (i + 1) = Some 0xE1 \<Longrightarrow> \<not> isXMPAt buf (i + 4) \<Longrightarrow>
   scanAPP1 buf i =
     scanAPP1 buf (i + nat (byteVal (byteAt buf (i + 2)) * 256 + byteVal (byteAt buf (i + 3))) + 3)"
proof -
  have e: "i + n + 2 + 1 = i + n + 3" for n :: nat by simp
  assume "int i < int (length buf) - 30" "byteAt buf i = Some 0xFF"
    "byteAt buf (i + 1) = Some 0xE1" "\<not> isXMPAt buf (i + 4)"
  then show ?thesis
    by (subst scanAPP1.simps) (simp only: Let_def if_True if_False simp_thms e)
qed

lemma scan_end: "\<not> int i < int (length buf) - 30 \<Longrightarrow> scanAPP1 buf i = None"
  by (subst scanAPP1.simps) simp




lemma nth_old: "buffer < length h \<Longrightarrow> (h @ [ys]) ! buffer = h ! buffer"
  by (simp add: nth_append)










text \<open>
  Claim embed_non_jpeg_fails. For every buffer that does not start with the JPEG start-of-image marker,
  \<^verbatim>\<open>embedXMPInImage\<close> raises the format error and no result, and the heap, hence the
  input buffer, is as it was before the call.
\<close>

theorem embed_non_jpeg_fails:
  "\<not> isJPEG (h ! imageBuffer) \<Longrightarrow>
   embedXMPInImage h imageBuffer xmpPacket =
     (Inl (Error ''XMP embedding failed: Image must be JPEG format for XMP embedding. Use ImageConverter to convert first.''), h)"
  by (simp add: embedXMPInImage_def)

text \<open>
  Witness for embed_non_jpeg_fails: the eight bytes of the PNG signature.
\<close>

theorem embed_non_jpeg_fails_witness:
  "\<not> isJPEG ([[0x89, 0x50, 0x4E, 0x47, 0x0D, 0x0A, 0x1A, 0x0A]] ! 0) \<and>
   embedXMPInImage [[0x89, 0x50, 0x4E, 0x47, 0x0D, 0x0A, 0x1A, 0x0A]] 0 ''<x/>'' =
     (Inl (Error ''XMP embedding failed: Image must be JPEG format for XMP embedding. Use ImageConverter to convert first.''),
      [[0x89, 0x50, 0x4E, 0x47, 0x0D, 0x0A, 0x1A, 0x0A]])"
proof -
  have a: "\<not> isJPEG ([[0x89, 0x50, 0x4E, 0x47, 0x0D, 0x0A, 0x1A, 0x0A]] ! 0)"
    by (simp add: isJPEG_def)
  show ?thesis using embed_non_jpeg_fails [OF a, of "''<x/>''"] a by simp
qed

text \<open>
  Claim C3 at a concrete input: a JPEG stream with an Exif APP1 segment of declared
  length 8 directly followed by an XMP APP1 segment. After the Exif segment, which starts
  at offset 2 and ends before offset 12, the scan resumes at offset 13, so the marker at
  offset 12 is never examined and nothing is found; without the Exif segment the same
  XMP segment is found.
\<close>

theorem extract_skips_adjacent_segment:
  "extractXMPFromJPEG
     ([0xFF, 0xD8] @ [0xFF, 0xE1, 0x00, 0x08, 0x45, 0x78, 0x69, 0x66, 0x00, 0x00] @
      [0xFF, 0xE1, 0x00, 0x21] @ xmpSignature @ [0x61, 0x62] @ [0xFF, 0xD9]) = None \<and>
   extractXMPFromJPEG
     ([0xFF, 0xD8] @
      [0xFF, 0xE1, 0x00, 0x21] @ xmpSignature @ [0x61, 0x62] @ [0xFF, 0xD9]) = Some ''ab''"
  by code_simp





section \<open>Totality of the extraction\<close>



section \<open>Schema detection of the report tool\<close>

lemma patternMatches_zero:
  "patternMatches ps s = 0 \<Longrightarrow> p \<in> set ps \<Longrightarrow> \<not> str_includes s p"
  by (auto simp add: patternMatches_def filter_empty_conv)

text \<open>
  Claim C8, as amended. When none of the three schema keys holds an object or a list, the
  ledger gives no schema tag and the pattern scores have no strict winner, the report
  tool's \<^verbatim>\<open>detectSchemaType\<close> returns the variant of the first of the prefixes
  \<^verbatim>\<open>lifestyle_\<close>, \<^verbatim>\<open>product_\<close>, \<^verbatim>\<open>orbit_\<close> that occurs in the lower-cased key string, and
  \<^verbatim>\<open>lifestyle\<close> when none occurs. The result is one of the three variants, and it is
  \<^verbatim>\<open>lifestyle\<close> on a total miss.
\<close>

theorem detectSchemaType_report_fallback:
  assumes "\<not> isObjectValue (getProp metadata ''lifestyle'')"
      and "\<not> isObjectValue (getProp metadata ''product'')"
      and "\<not> isObjectValue (getProp metadata ''orbit'')"
      and "ledgerSchemaTag metadata = None"
      and "\<not> (patternMatches lifestylePatterns (keyStringOf metadata) > patternMatches productPatterns (keyStringOf metadata) \<and>
              patternMatches lifestylePatterns (keyStringOf metadata) > patternMatches orbitPatterns (keyStringOf metadata))"
      and "\<not> (patternMatches productPatterns (keyStringOf metadata) > patternMatches lifestylePatterns (keyStringOf metadata) \<and>
              patternMatches productPatterns (keyStringOf metadata) > patternMatches orbitPatterns (keyStringOf metadata))"
      and "\<not> (patternMatches orbitPatterns (keyStringOf metadata) > patternMatches lifestylePatterns (keyStringOf metadata) \<and>
              patternMatches orbitPatterns (keyStringOf metadata) > patternMatches productPatterns (keyStringOf metadata))"
  shows "detectSchemaType_report metadata =
           (if str_includes (keyStringOf metadata) ''lifestyle_'' then JStr ''lifestyle''
            else if str_includes (keyStringOf metadata) ''product_'' then JStr ''product''
            else if str_includes (keyStringOf metadata) ''orbit_'' then JStr ''orbit''
            else JStr ''lifestyle'') \<and>
         detectSchemaType_report metadata \<in> {JStr ''lifestyle'', JStr ''product'', JStr ''orbit''} \<and>
         (patternMatches lifestylePatterns (keyStringOf metadata) = 0 \<and>
          patternMatches productPatterns (keyStringOf metadata) = 0 \<and>
          patternMatches orbitPatterns (keyStringOf metadata) = 0 \<longrightarrow>
            detectSchemaType_report metadata = JStr ''lifestyle'')"
proof -
  have d: "detectSchemaType_report metadata =
           (if str_includes (keyStringOf metadata) ''lifestyle_'' then JStr ''lifestyle''
            else if str_includes (keyStringOf metadata) ''product_'' then JStr ''product''
            else if str_includes (keyStringOf metadata) ''orbit_'' then JStr ''orbit''
            else JStr ''lifestyle'')"
    unfolding detectSchemaType_report_def Let_def
    by (simp only: assms if_False option.case)
  have z: "\<not> str_includes (keyStringOf metadata) ''product_''"
    if "patternMatches productPatterns (keyStringOf metadata) = 0"
    using patternMatches_zero [OF that, of "''product_''"] by (simp add: productPatterns_def)
  have z': "\<not> str_includes (keyStringOf metadata) ''orbit_''"
    if "patternMatches orbitPatterns (keyStringOf metadata) = 0"
    using patternMatches_zero [OF that, of "''orbit_''"] by (simp add: orbitPatterns_def)
  show ?thesis using d z z' by auto
qed

text \<open>
  Counterexample to C8 as stated: two keys, one with the product prefix and one with the
  orbit prefix. No schema key holds an object, there is no ledger, the scores are 0, 1
  and 1, and the result is \<^verbatim>\<open>product\<close>.
\<close>

theorem detectSchemaType_report_tie_product:
  "\<not> isObjectValue (getProp (JObj [(''product_x'', JStr ''1''), (''orbit_y'', JStr ''2'')]) ''lifestyle'') \<and>
   \<not> isObjectValue (getProp (JObj [(''product_x'', JStr ''1''), (''orbit_y'', JStr ''2'')]) ''product'') \<and>
   \<not> isObjectValue (getProp (JObj [(''product_x'', JStr ''1''), (''orbit_y'', JStr ''2'')]) ''orbit'') \<and>
   ledgerSchemaTag (JObj [(''product_x'', JStr ''1''), (''orbit_y'', JStr ''2'')]) = None \<and>
   patternMatches lifestylePatterns (keyStringOf (JObj [(''product_x'', JStr ''1''), (''orbit_y'', JStr ''2'')])) = 0 \<and>
   patternMatches productPatterns (keyStringOf (JObj [(''product_x'', JStr ''1''), (''orbit_y'', JStr ''2'')])) = 1 \<and>
   patternMatches orbitPatterns (keyStringOf (JObj [(''product_x'', JStr ''1''), (''orbit_y'', JStr ''2'')])) = 1 \<and>
   detectSchemaType_report (JObj [(''product_x'', JStr ''1''), (''orbit_y'', JStr ''2'')]) = JStr ''product'' \<and>
   JStr ''product'' \<noteq> JStr ''lifestyle''"
  by code_simp

text \<open>
  Witness for C8 as amended: a flat map whose keys hit no pattern.
\<close>

theorem detectSchemaType_report_fallback_witness:
  "\<not> isObjectValue (getProp (JObj [(''setting'', JStr ''Cafe''), (''mood'', JStr ''calm'')]) ''lifestyle'') \<and>
   ledgerSchemaTag (JObj [(''setting'', JStr ''Cafe''), (''mood'', JStr ''calm'')]) = None \<and>
   patternMatches lifestylePatterns (keyStringOf (JObj [(''setting'', JStr ''Cafe''), (''mood'', JStr ''calm'')])) = 0 \<and>
   patternMatches productPatterns (keyStringOf (JObj [(''setting'', JStr ''Cafe''), (''mood'', JStr ''calm'')])) = 0 \<and>
   patternMatches orbitPatterns (keyStringOf (JObj [(''setting'', JStr ''Cafe''), (''mood'', JStr ''calm'')])) = 0 \<and>
   detectSchemaType_report (JObj [(''setting'', JStr ''Cafe''), (''mood'', JStr ''calm'')]) = JStr ''lifestyle''"
proof -
  define m where "m = JObj [(''setting'', JStr ''Cafe''), (''mood'', JStr ''calm'')]"
  have a: "\<not> isObjectValue (getProp m ''lifestyle'')" "\<not> isObjectValue (getProp m ''product'')"
    "\<not> isObjectValue (getProp m ''orbit'')"
    unfolding m_def by code_simp+
  have b: "ledgerSchemaTag m = None" unfolding m_def by code_simp
  have c: "patternMatches lifestylePatterns (keyStringOf m) = 0"
    "patternMatches productPatterns (keyStringOf m) = 0"
    "patternMatches orbitPatterns (keyStringOf m) = 0"
    unfolding m_def by code_simp+
  have p: "\<not> (patternMatches lifestylePatterns (keyStringOf m) > patternMatches productPatterns (keyStringOf m) \<and>
              patternMatches lifestylePatterns (keyStringOf m) > patternMatches orbitPatterns (keyStringOf m))"
    "\<not> (patternMatches productPatterns (keyStringOf m) > patternMatches lifestylePatterns (keyStringOf m) \<and>
              patternMatches productPatterns (keyStringOf m) > patternMatches orbitPatterns (keyStringOf m))"
    "\<not> (patternMatches orbitPatterns (keyStringOf m) > patternMatches lifestylePatterns (keyStringOf m) \<and>
              patternMatches orbitPatterns (keyStringOf m) > patternMatches productPatterns (keyStringOf m))"
    using c by simp_all
  have "detectSchemaType_report m = JStr ''lifestyle''"
    using detectSchemaType_report_fallback [OF a b p] c by blast
  then show ?thesis using a(1) b c unfolding m_def by blast
qed

section \<open>Exclusive assignment of fields to categories\<close>











end
